theory Spec2Isabelle
  imports Main
begin

section \<open>Python values and library calls used by the package\<close>

text \<open>
  The package \<open>ado_cli\<close> has two pure-looking helpers, \<open>config.resolve_config_path\<close>
  and \<open>output.format_output\<close>. Both lean on the standard library: \<open>pathlib\<close>,
  \<open>os.getenv\<close>, \<open>json\<close> and on PyYAML. Exceptions are values of \<open>exn\<close>; a call
  that may raise returns \<open>exn + 'a\<close>, with \<open>Inl\<close> the exception.
\<close>

datatype exn =
  RuntimeError | OSError | TypeError | ValueError | RecursionError | RepresenterError

subsection \<open>\<open>pathlib\<close>: pure POSIX paths\<close>

text \<open>
  A \<open>PurePosixPath\<close> is its root (\<open>''''\<close>, \<open>''/''\<close> or \<open>''//''\<close>) and its components
  (pathlib's \<open>_tail\<close>). Two paths are equal when both agree, which is how pathlib
  compares them on POSIX (it compares the strings they print as).
\<close>

datatype path = PosixPath (root: string) (tail: "string list")

text \<open>\<open>rel.split('/')\<close>: the pieces between separators, empty pieces included.\<close>

fun split_sep :: "string \<Rightarrow> string \<Rightarrow> string list" where
  "split_sep acc [] = [acc]"
| "split_sep acc (c # cs) =
     (if c = CHR ''/'' then acc # split_sep [] cs else split_sep (acc @ [c]) cs)"

text \<open>\<open>posixpath.splitroot\<close>, without the drive (always empty on POSIX).\<close>

definition splitroot :: "string \<Rightarrow> string \<times> string" where
  "splitroot p =
     (if take 1 p \<noteq> ''/'' then ('''', p)
      else if take 1 (drop 1 p) \<noteq> ''/'' \<or> take 1 (drop 2 p) = ''/'' then (''/'', drop 1 p)
      else (''//'', drop 2 p))"

text \<open>\<open>Path(s)\<close> for a string \<open>s\<close>: \<open>PurePath._parse_path\<close>.\<close>

definition Path :: "string \<Rightarrow> path" where
  "Path s =
     (if s = [] then PosixPath [] []
      else (case splitroot s of
              (rt, rel) \<Rightarrow> PosixPath rt (filter (\<lambda>x. x \<noteq> [] \<and> x \<noteq> ''.'') (split_sep [] rel))))"

text \<open>
  \<open>p / key\<close> for a string \<open>key\<close>: \<open>posixpath.join\<close> of the two, parsed again. An
  absolute \<open>key\<close> replaces \<open>p\<close>; a relative one adds its components.
\<close>

definition truediv :: "path \<Rightarrow> string \<Rightarrow> path" where
  "truediv p key =
     (let q = Path key
      in if root q \<noteq> [] then q else PosixPath (root p) (tail p @ tail q))"

subsection \<open>The process: environment, home directory, filesystem\<close>

text \<open>
  What the code reads from outside: \<open>os.environ\<close>; the result of \<open>Path.home()\<close>, which
  raises \<open>RuntimeError\<close> when no home directory can be determined; and the answer of
  \<open>Path.exists()\<close> for each path, which raises \<open>OSError\<close> for errors other than
  "no such file" (a directory that may not be searched, for one).
\<close>

record os_state =
  environ :: "string \<Rightarrow> string option"
  path_home :: "exn + path"
  path_exists :: "path \<Rightarrow> exn + bool"

definition os_getenv :: "os_state \<Rightarrow> string \<Rightarrow> string option" where
  "os_getenv os key = environ os key"

text \<open>
  Truth value of an \<open>Optional[str]\<close> in \<open>if s:\<close>: \<open>None\<close> and the empty string are
  false. \<open>truthy s\<close> is the string when the test succeeds.
\<close>

definition truthy :: "string option \<Rightarrow> string option" where
  "truthy s = (case s of None \<Rightarrow> None | Some x \<Rightarrow> if x = [] then None else Some x)"

section \<open>\<open>config.py\<close>\<close>

text \<open>\<open>home or Path.home()\<close>: a \<open>Path\<close> object is always true, so only \<open>None\<close> falls through.\<close>

definition home_or_default :: "os_state \<Rightarrow> path option \<Rightarrow> exn + path" where
  "home_or_default os home = (case home of Some h \<Rightarrow> Inr h | None \<Rightarrow> path_home os)"

definition default_search_paths :: "os_state \<Rightarrow> path option \<Rightarrow> exn + path list" where
  "default_search_paths os home =
     (case home_or_default os home of
        Inl e \<Rightarrow> Inl e
      | Inr home_dir \<Rightarrow>
          (let paths = [];
               xdg = os_getenv os ''XDG_CONFIG_HOME'';
               paths = (case truthy xdg of
                          Some x \<Rightarrow> paths @ [truediv (truediv (Path x) ''ado'') ''config.yaml'']
                        | None \<Rightarrow>
                            paths @ [truediv (truediv (truediv home_dir ''.config'') ''ado'')
                                       ''config.yaml'']);
               paths = paths @ [truediv (truediv home_dir ''.ado'') ''config.yaml'']
           in Inr paths))"

text \<open>The \<open>for candidate in search_paths\<close> loop of \<open>resolve_config_path\<close>.\<close>

fun scan_candidates :: "(path \<Rightarrow> exn + bool) \<Rightarrow> path list \<Rightarrow> exn + path option" where
  "scan_candidates ex [] = Inr None"
| "scan_candidates ex (candidate # rest) =
     (case ex candidate of
        Inl e \<Rightarrow> Inl e
      | Inr b \<Rightarrow> if b then Inr (Some candidate) else scan_candidates ex rest)"

definition resolve_config_path ::
  "os_state \<Rightarrow> string option \<Rightarrow> string option \<Rightarrow> path option \<Rightarrow> exn + (path option \<times> path list)"
where
  "resolve_config_path os explicit_path env_path home =
     (case default_search_paths os home of
        Inl e \<Rightarrow> Inl e
      | Inr search_paths \<Rightarrow>
          (case truthy explicit_path of
             Some e \<Rightarrow> Inr (Some (Path e), Path e # search_paths)
           | None \<Rightarrow>
               (case truthy env_path of
                  Some v \<Rightarrow> Inr (Some (Path v), Path v # search_paths)
                | None \<Rightarrow>
                    (case scan_candidates (path_exists os) search_paths of
                       Inl e \<Rightarrow> Inl e
                     | Inr found \<Rightarrow> Inr (found, search_paths)))))"

section \<open>\<open>output.py\<close>\<close>

text \<open>
  The payloads the commands build: \<open>None\<close>, booleans, integers, strings, lists and
  dictionaries with string keys (in insertion order). \<open>PObject c\<close> is an instance of
  any other class \<open>c\<close>, such as \<open>pathlib.PosixPath\<close>.
\<close>

datatype pyval =
    PNone
  | PBool bool
  | PInt int
  | PStr string
  | PList "pyval list"
  | PDict "(string \<times> pyval) list"
  | PObject string

text \<open>
  The two encoders are library code, not code of the package, so what they do is a
  parameter: \<open>json_dumps K payload indent\<close> is what \<open>json.dumps(payload, indent=indent)\<close>
  returns or raises, \<open>yaml_safe_dump K payload sort_keys\<close> what
  \<open>yaml.safe_dump(payload, sort_keys=sort_keys)\<close> returns or raises. Nothing is assumed
  about which payloads they refuse, with which exception, or about the text they give.
\<close>

record encoders =
  json_dumps :: "pyval \<Rightarrow> nat \<Rightarrow> exn + string"
  yaml_safe_dump :: "pyval \<Rightarrow> bool \<Rightarrow> exn + string"

text \<open>\<open>render_text\<close> is the caller's closure; like any call it may raise.\<close>

definition format_output ::
  "encoders \<Rightarrow> string \<Rightarrow> pyval \<Rightarrow> (unit \<Rightarrow> exn + string) \<Rightarrow> exn + string"
where
  "format_output K format payload render_text =
     (if format = ''json'' then json_dumps K payload 2
      else if format = ''yaml'' then yaml_safe_dump K payload False
      else render_text ())"

section \<open>Concrete processes and inputs\<close>

text \<open>
  A process with an empty environment, home directory \<open>/home/u\<close> and no file on disk,
  and variations of it: the XDG variable set, or set to the empty string; one of the
  two default files present; a filesystem on which every existence test raises, and
  one on which the first default file is absent and every other test raises.
\<close>

definition os_bare :: os_state where
  "os_bare =
     \<lparr>environ = (\<lambda>key. None),
      path_home = Inr (PosixPath ''/'' [''home'', ''u'']),
      path_exists = (\<lambda>p. Inr False)\<rparr>"

definition os_xdg :: os_state where
  "os_xdg = os_bare\<lparr>environ := (\<lambda>key. if key = ''XDG_CONFIG_HOME'' then Some ''/x'' else None)\<rparr>"

definition os_xdg_empty :: os_state where
  "os_xdg_empty =
     os_bare\<lparr>environ := (\<lambda>key. if key = ''XDG_CONFIG_HOME'' then Some [] else None)\<rparr>"

definition os_other_env :: os_state where
  "os_other_env =
     os_bare\<lparr>environ := (\<lambda>key. if key = ''ADO_LOG_LEVEL'' then Some ''debug'' else None)\<rparr>"

definition os_first :: os_state where
  "os_first =
     os_bare\<lparr>path_exists :=
       (\<lambda>p. if p = PosixPath ''/'' [''home'', ''u'', ''.config'', ''ado'', ''config.yaml'']
            then Inr True else Inl OSError)\<rparr>"

definition os_second :: os_state where
  "os_second =
     os_bare\<lparr>path_exists :=
       (\<lambda>p. Inr (p = PosixPath ''/'' [''home'', ''u'', ''.ado'', ''config.yaml'']))\<rparr>"

definition os_denied :: os_state where
  "os_denied = os_bare\<lparr>path_exists := (\<lambda>p. Inl OSError)\<rparr>"

definition os_second_denied :: os_state where
  "os_second_denied =
     os_bare\<lparr>path_exists :=
       (\<lambda>p. if p = PosixPath ''/'' [''home'', ''u'', ''.config'', ''ado'', ''config.yaml'']
            then Inr False else Inl OSError)\<rparr>"

definition home_u :: path where
  "home_u = PosixPath ''/'' [''home'', ''u'']"

text \<open>
  Encoders that give no text: every call raises, with the exception each library
  raises on a payload that holds a \<open>PosixPath\<close>.
\<close>

definition no_text :: encoders where
  "no_text =
     \<lparr>json_dumps = (\<lambda>payload indent. Inl TypeError),
      yaml_safe_dump = (\<lambda>payload sort_keys. Inl RepresenterError)\<rparr>"

definition say_hello :: "unit \<Rightarrow> exn + string" where
  "say_hello u = Inr ''hello''"

section \<open>Facts about the library model\<close>

lemma Path_segment_simps:
  "Path ''ado'' = PosixPath [] [''ado'']"
  "Path ''config.yaml'' = PosixPath [] [''config.yaml'']"
  "Path ''.config'' = PosixPath [] [''.config'']"
  "Path ''.ado'' = PosixPath [] [''.ado'']"
  by (simp_all add: Path_def splitroot_def)

lemma truediv_segment_simps:
  "truediv p ''ado'' = PosixPath (root p) (tail p @ [''ado''])"
  "truediv p ''config.yaml'' = PosixPath (root p) (tail p @ [''config.yaml''])"
  "truediv p ''.config'' = PosixPath (root p) (tail p @ [''.config''])"
  "truediv p ''.ado'' = PosixPath (root p) (tail p @ [''.ado''])"
  by (simp_all add: truediv_def Path_segment_simps)

lemma truthy_simps:
  "truthy None = None"
  "truthy (Some []) = None"
  "x \<noteq> [] \<Longrightarrow> truthy (Some x) = Some x"
  by (simp_all add: truthy_def)

lemma default_search_paths_given_home:
  "default_search_paths os (Some h) =
     Inr [case truthy (os_getenv os ''XDG_CONFIG_HOME'') of
            Some x \<Rightarrow> PosixPath (root (Path x)) (tail (Path x) @ [''ado'', ''config.yaml''])
          | None \<Rightarrow> PosixPath (root h) (tail h @ [''.config'', ''ado'', ''config.yaml'']),
          PosixPath (root h) (tail h @ [''.ado'', ''config.yaml''])]"
  by (simp add: default_search_paths_def home_or_default_def truediv_segment_simps
      split: option.splits)

section \<open>The resolver: explicit and environment paths\<close>

text \<open>
  C1. For a non-empty explicit path, \<open>resolve_config_path\<close> returns the explicit path
  and the list made of the explicit path followed by the two default candidates,
  whatever the environment path and whatever the filesystem answers: the process
  \<open>os\<close> is arbitrary, so also one on which every existence test would raise.
\<close>

theorem resolve_explicit:
  "explicit \<noteq> [] \<Longrightarrow>
   \<exists>default1 default2.
     default_search_paths os (Some home) = Inr [default1, default2] \<and>
     resolve_config_path os (Some explicit) env_path (Some home) =
       Inr (Some (Path explicit), [Path explicit, default1, default2])"
  by (simp add: resolve_config_path_def default_search_paths_given_home truthy_simps)

theorem resolve_explicit_witness:
  "''/etc/ado.yaml'' \<noteq> [] \<and>
   resolve_config_path os_denied (Some ''/etc/ado.yaml'') (Some ''/tmp/e.yaml'') (Some home_u) =
     Inr (Some (PosixPath ''/'' [''etc'', ''ado.yaml'']),
          [PosixPath ''/'' [''etc'', ''ado.yaml''],
           PosixPath ''/'' [''home'', ''u'', ''.config'', ''ado'', ''config.yaml''],
           PosixPath ''/'' [''home'', ''u'', ''.ado'', ''config.yaml'']])"
  using resolve_explicit [of "''/etc/ado.yaml''" os_denied home_u "Some ''/tmp/e.yaml''"]
  by (simp add: default_search_paths_given_home truthy_simps os_getenv_def os_denied_def
      os_bare_def home_u_def Path_def splitroot_def)

text \<open>
  C4. With no explicit path (\<open>None\<close> or the empty string) and a non-empty
  environment path, \<open>resolve_config_path\<close> returns the environment path and the list
  made of it followed by the two default candidates. No existence test is made: the
  filesystem of \<open>os\<close> is arbitrary.
\<close>

theorem resolve_env:
  "env_path \<noteq> [] \<Longrightarrow> explicit = None \<or> explicit = Some [] \<Longrightarrow>
   \<exists>default1 default2.
     default_search_paths os (Some home) = Inr [default1, default2] \<and>
     resolve_config_path os explicit (Some env_path) (Some home) =
       Inr (Some (Path env_path), [Path env_path, default1, default2])"
  by (auto simp add: resolve_config_path_def default_search_paths_given_home truthy_simps)

text \<open>
  The scenario of the specification, in a process without the XDG variable and on a
  filesystem where every existence test would raise.
\<close>

theorem resolve_env_witness:
  "''/tmp/env-config.yaml'' \<noteq> [] \<and>
   resolve_config_path os_denied None (Some ''/tmp/env-config.yaml'') (Some (Path ''/home/u'')) =
     Inr (Some (Path ''/tmp/env-config.yaml''),
          [Path ''/tmp/env-config.yaml'', Path ''/home/u/.config/ado/config.yaml'',
           Path ''/home/u/.ado/config.yaml''])"
  using resolve_env [of "''/tmp/env-config.yaml''" None os_denied "Path ''/home/u''"]
  by (simp add: default_search_paths_given_home truthy_simps os_getenv_def os_denied_def
      os_bare_def Path_def splitroot_def)

text \<open>
  C10. The empty string is treated as \<open>None\<close>, for the explicit path and for the
  environment path alike: the call returns what it returns with \<open>None\<close> in that place,
  so the branch of the empty argument is not taken.
\<close>

theorem resolve_empty_is_none:
  "resolve_config_path os (Some []) env_path home = resolve_config_path os None env_path home \<and>
   resolve_config_path os explicit_path (Some []) home =
     resolve_config_path os explicit_path None home"
  by (simp add: resolve_config_path_def truthy_simps cong: sum.case_cong option.case_cong)

text \<open>
  With an empty explicit path the environment path is used; with both empty the
  default candidates are scanned, and here the second one is found.
\<close>

theorem resolve_empty_is_none_witness:
  "resolve_config_path os_second (Some []) (Some ''/tmp/e.yaml'') (Some home_u) =
     Inr (Some (PosixPath ''/'' [''tmp'', ''e.yaml'']),
          [PosixPath ''/'' [''tmp'', ''e.yaml''],
           PosixPath ''/'' [''home'', ''u'', ''.config'', ''ado'', ''config.yaml''],
           PosixPath ''/'' [''home'', ''u'', ''.ado'', ''config.yaml'']]) \<and>
   resolve_config_path os_second (Some []) (Some []) (Some home_u) =
     Inr (Some (PosixPath ''/'' [''home'', ''u'', ''.ado'', ''config.yaml'']),
          [PosixPath ''/'' [''home'', ''u'', ''.config'', ''ado'', ''config.yaml''],
           PosixPath ''/'' [''home'', ''u'', ''.ado'', ''config.yaml'']])"
proof -
  have a: "resolve_config_path os_second None (Some ''/tmp/e.yaml'') (Some home_u) =
     Inr (Some (PosixPath ''/'' [''tmp'', ''e.yaml'']),
          [PosixPath ''/'' [''tmp'', ''e.yaml''],
           PosixPath ''/'' [''home'', ''u'', ''.config'', ''ado'', ''config.yaml''],
           PosixPath ''/'' [''home'', ''u'', ''.ado'', ''config.yaml'']])"
    by (simp add: resolve_config_path_def default_search_paths_given_home truthy_simps
        os_getenv_def os_second_def os_bare_def home_u_def Path_def splitroot_def)
  have b: "resolve_config_path os_second None None (Some home_u) =
     Inr (Some (PosixPath ''/'' [''home'', ''u'', ''.ado'', ''config.yaml'']),
          [PosixPath ''/'' [''home'', ''u'', ''.config'', ''ado'', ''config.yaml''],
           PosixPath ''/'' [''home'', ''u'', ''.ado'', ''config.yaml'']])"
    by (simp add: resolve_config_path_def default_search_paths_given_home truthy_simps
        os_getenv_def os_second_def os_bare_def home_u_def)
  from a b
    resolve_empty_is_none [of os_second "Some ''/tmp/e.yaml''" "Some home_u" None]
    resolve_empty_is_none [of os_second "Some []" "Some home_u" None]
  show ?thesis by simp
qed

section \<open>The resolver: the scan of the default candidates\<close>

lemma scan_candidates_found:
  "scan_candidates ex cs = Inr (Some p) \<Longrightarrow>
   \<exists>before after. cs = before @ p # after \<and> ex p = Inr True \<and>
     (\<forall>q \<in> set before. ex q = Inr False)"
proof (induction cs)
  case Nil
  then show ?case by simp
next
  case (Cons c cs)
  show ?case
  proof (cases "ex c")
    case (Inl e)
    with Cons.prems show ?thesis by simp
  next
    case (Inr b)
    show ?thesis
    proof (cases b)
      case True
      with Inr Cons.prems have "c = p" by simp
      with Inr True have
        "c # cs = [] @ p # cs \<and> ex p = Inr True \<and> (\<forall>q \<in> set []. ex q = Inr False)"
        by simp
      then show ?thesis by blast
    next
      case False
      with Inr Cons.prems have "scan_candidates ex cs = Inr (Some p)" by simp
      from Cons.IH [OF this] obtain before after where
        h: "cs = before @ p # after" "ex p = Inr True" "\<forall>q \<in> set before. ex q = Inr False"
        by blast
      with Inr False have "c # cs = (c # before) @ p # after \<and> ex p = Inr True \<and>
          (\<forall>q \<in> set (c # before). ex q = Inr False)"
        by simp
      then show ?thesis by blast
    qed
  qed
qed

lemma scan_candidates_first:
  "\<forall>q \<in> set before. ex q = Inr False \<Longrightarrow> ex p = Inr True \<Longrightarrow>
   scan_candidates ex (before @ p # after) = Inr (Some p)"
  by (induction before) auto

lemma scan_candidates_none:
  "scan_candidates ex cs = Inr None \<longleftrightarrow> (\<forall>c \<in> set cs. ex c = Inr False)"
  by (induction cs) (auto split: sum.splits)

text \<open>
  C5, as the code has it. With neither an explicit nor an environment path (each
  \<open>None\<close> or empty), the two default candidates are tested in order with
  \<open>Path.exists()\<close> and the first for which the test answers true is returned with the
  list of both: the first candidate when its test answers true, the second not being
  tested; the second when the first test answers false and the second true; no path
  when both answer false. The tests are not guarded: when a test that is reached
  raises, the call raises that error and returns nothing.
\<close>

theorem resolve_default_scan:
  assumes "explicit_path = None \<or> explicit_path = Some []"
    and "env_path = None \<or> env_path = Some []"
  shows "\<exists>default1 default2.
     default_search_paths os (Some home) = Inr [default1, default2] \<and>
     (path_exists os default1 = Inr True \<longrightarrow>
        resolve_config_path os explicit_path env_path (Some home) =
          Inr (Some default1, [default1, default2])) \<and>
     (path_exists os default1 = Inr False \<and> path_exists os default2 = Inr True \<longrightarrow>
        resolve_config_path os explicit_path env_path (Some home) =
          Inr (Some default2, [default1, default2])) \<and>
     (path_exists os default1 = Inr False \<and> path_exists os default2 = Inr False \<longrightarrow>
        resolve_config_path os explicit_path env_path (Some home) =
          Inr (None, [default1, default2])) \<and>
     (\<forall>e. path_exists os default1 = Inl e \<longrightarrow>
        resolve_config_path os explicit_path env_path (Some home) = Inl e) \<and>
     (\<forall>e. path_exists os default1 = Inr False \<and> path_exists os default2 = Inl e \<longrightarrow>
        resolve_config_path os explicit_path env_path (Some home) = Inl e)"
proof -
  from assms have t: "truthy explicit_path = None" "truthy env_path = None"
    by (auto simp add: truthy_simps)
  show ?thesis
    by (simp add: resolve_config_path_def default_search_paths_given_home t)
qed

text \<open>
  The five cases: only the first candidate exists (and testing any other path would
  raise); only the second exists; nothing exists; the first test raises; the first
  candidate is absent and the second test raises.
\<close>

theorem resolve_default_scan_witness:
  "resolve_config_path os_first None (Some []) (Some home_u) =
     Inr (Some (PosixPath ''/'' [''home'', ''u'', ''.config'', ''ado'', ''config.yaml'']),
          [PosixPath ''/'' [''home'', ''u'', ''.config'', ''ado'', ''config.yaml''],
           PosixPath ''/'' [''home'', ''u'', ''.ado'', ''config.yaml'']]) \<and>
   resolve_config_path os_second (Some []) None (Some home_u) =
     Inr (Some (PosixPath ''/'' [''home'', ''u'', ''.ado'', ''config.yaml'']),
          [PosixPath ''/'' [''home'', ''u'', ''.config'', ''ado'', ''config.yaml''],
           PosixPath ''/'' [''home'', ''u'', ''.ado'', ''config.yaml'']]) \<and>
   resolve_config_path os_bare None None (Some home_u) =
     Inr (None,
          [PosixPath ''/'' [''home'', ''u'', ''.config'', ''ado'', ''config.yaml''],
           PosixPath ''/'' [''home'', ''u'', ''.ado'', ''config.yaml'']]) \<and>
   resolve_config_path os_denied (Some []) (Some []) (Some home_u) = Inl OSError \<and>
   resolve_config_path os_second_denied None None (Some home_u) = Inl OSError"
  using resolve_default_scan [of None "Some []" os_first home_u]
    resolve_default_scan [of "Some []" None os_second home_u]
    resolve_default_scan [of None None os_bare home_u]
    resolve_default_scan [of "Some []" "Some []" os_denied home_u]
    resolve_default_scan [of None None os_second_denied home_u]
  by (simp add: default_search_paths_given_home truthy_simps os_getenv_def os_first_def
      os_second_def os_bare_def os_denied_def os_second_denied_def home_u_def)

text \<open>
  Nothing is on disk, yet the call raises: the existence tests fail for a reason
  other than a missing file (a name longer than the filesystem allows, a directory
  that may not be searched), and \<open>Path.exists()\<close> raises \<open>OSError\<close> for those. No test
  answers true, and no pair \<open>(None, search_paths)\<close> is returned.
\<close>

theorem resolve_default_scan_raises:
  "path_exists os_denied (PosixPath ''/'' [''home'', ''u'', ''.config'', ''ado'', ''config.yaml''])
     = Inl OSError \<and>
   path_exists os_denied (PosixPath ''/'' [''home'', ''u'', ''.ado'', ''config.yaml''])
     = Inl OSError \<and>
   default_search_paths os_denied (Some home_u) =
     Inr [PosixPath ''/'' [''home'', ''u'', ''.config'', ''ado'', ''config.yaml''],
          PosixPath ''/'' [''home'', ''u'', ''.ado'', ''config.yaml'']] \<and>
   resolve_config_path os_denied None None (Some home_u) = Inl OSError \<and>
   resolve_config_path os_denied None None (Some home_u) \<noteq>
     Inr (None, [PosixPath ''/'' [''home'', ''u'', ''.config'', ''ado'', ''config.yaml''],
                 PosixPath ''/'' [''home'', ''u'', ''.ado'', ''config.yaml'']])"
  by (simp add: resolve_config_path_def default_search_paths_given_home truthy_simps
      os_getenv_def os_denied_def os_bare_def home_u_def)

text \<open>
  C6. Whenever \<open>resolve_config_path\<close> returns, the list of search paths is not empty,
  and a resolved path is the explicit path (non-empty), or the environment path
  (non-empty), or a default candidate that exists on disk while every candidate
  before it does not: a path taken from the defaults is never one that does not exist.
\<close>

theorem resolve_invariant:
  assumes "resolve_config_path os explicit_path env_path home = Inr (resolved, search)"
  shows "search \<noteq> [] \<and>
    (\<forall>p. resolved = Some p \<longrightarrow>
       (\<exists>e. explicit_path = Some e \<and> e \<noteq> [] \<and> p = Path e) \<or>
       (\<exists>v. env_path = Some v \<and> v \<noteq> [] \<and> p = Path v) \<or>
       (\<exists>before after.
           default_search_paths os home = Inr (before @ p # after) \<and>
           path_exists os p = Inr True \<and>
           (\<forall>q \<in> set before. path_exists os q = Inr False)))"
proof -
  from assms obtain ds where ds: "default_search_paths os home = Inr ds"
    by (auto simp add: resolve_config_path_def split: sum.splits)
  then have ne: "ds \<noteq> []"
    by (auto simp add: default_search_paths_def Let_def split: sum.splits option.splits)
  show ?thesis
  proof (cases "truthy explicit_path")
    case (Some e)
    then have "explicit_path = Some e \<and> e \<noteq> []"
      by (auto simp add: truthy_def split: option.splits if_splits)
    with assms ds Some show ?thesis
      by (auto simp add: resolve_config_path_def)
  next
    case None
    note no_explicit = this
    show ?thesis
    proof (cases "truthy env_path")
      case (Some v)
      then have "env_path = Some v \<and> v \<noteq> []"
        by (auto simp add: truthy_def split: option.splits if_splits)
      with assms ds no_explicit Some show ?thesis
        by (auto simp add: resolve_config_path_def)
    next
      case None
      with assms ds no_explicit
      have s: "scan_candidates (path_exists os) ds = Inr resolved" "search = ds"
        by (auto simp add: resolve_config_path_def split: sum.splits)
      show ?thesis
      proof (cases resolved)
        case None
        with s ne show ?thesis by simp
      next
        case (Some p)
        with s have "scan_candidates (path_exists os) ds = Inr (Some p)" by simp
        from scan_candidates_found [OF this] ds s ne Some show ?thesis by auto
      qed
    qed
  qed
qed

theorem resolve_invariant_witness:
  "resolve_config_path os_second None None None =
     Inr (Some (PosixPath ''/'' [''home'', ''u'', ''.ado'', ''config.yaml'']),
          [PosixPath ''/'' [''home'', ''u'', ''.config'', ''ado'', ''config.yaml''],
           PosixPath ''/'' [''home'', ''u'', ''.ado'', ''config.yaml'']]) \<and>
   path_exists os_second (PosixPath ''/'' [''home'', ''u'', ''.ado'', ''config.yaml'']) = Inr True \<and>
   path_exists os_second (PosixPath ''/'' [''home'', ''u'', ''.config'', ''ado'', ''config.yaml''])
     = Inr False"
proof -
  have r: "resolve_config_path os_second None None None =
     Inr (Some (PosixPath ''/'' [''home'', ''u'', ''.ado'', ''config.yaml'']),
          [PosixPath ''/'' [''home'', ''u'', ''.config'', ''ado'', ''config.yaml''],
           PosixPath ''/'' [''home'', ''u'', ''.ado'', ''config.yaml'']])"
    by (simp add: resolve_config_path_def default_search_paths_def home_or_default_def
        truediv_segment_simps truthy_simps os_getenv_def os_second_def os_bare_def)
  from r resolve_invariant [OF r] show ?thesis
    by (simp add: os_second_def)
qed

section \<open>The resolver and the process environment\<close>

text \<open>
  C7, as the code has it. The default search order has two elements. The first is
  \<open>$XDG_CONFIG_HOME/ado/config.yaml\<close> when \<open>XDG_CONFIG_HOME\<close> is set to a non-empty
  string, and \<open><home>/.config/ado/config.yaml\<close> when the variable is unset or set to
  the empty string. The second is always \<open><home>/.ado/config.yaml\<close>. Here \<open><home>\<close>
  is the \<open>home\<close> argument, or \<open>Path.home()\<close> when none is passed.
\<close>

theorem default_search_paths_shape:
  assumes "home_or_default os home = Inr h"
  shows "default_search_paths os home =
     Inr [case os_getenv os ''XDG_CONFIG_HOME'' of
            None \<Rightarrow> PosixPath (root h) (tail h @ [''.config'', ''ado'', ''config.yaml''])
          | Some x \<Rightarrow>
              if x = [] then PosixPath (root h) (tail h @ [''.config'', ''ado'', ''config.yaml''])
              else PosixPath (root (Path x)) (tail (Path x) @ [''ado'', ''config.yaml'']),
          PosixPath (root h) (tail h @ [''.ado'', ''config.yaml''])]"
  using assms
  by (simp add: default_search_paths_def truediv_segment_simps truthy_def split: option.splits)

theorem default_search_paths_shape_witness:
  "home_or_default os_xdg None = Inr home_u \<and>
   default_search_paths os_xdg None =
     Inr [PosixPath ''/'' [''x'', ''ado'', ''config.yaml''],
          PosixPath ''/'' [''home'', ''u'', ''.ado'', ''config.yaml'']] \<and>
   home_or_default os_bare (Some home_u) = Inr home_u \<and>
   default_search_paths os_bare (Some home_u) =
     Inr [PosixPath ''/'' [''home'', ''u'', ''.config'', ''ado'', ''config.yaml''],
          PosixPath ''/'' [''home'', ''u'', ''.ado'', ''config.yaml'']]"
proof -
  have a: "home_or_default os_xdg None = Inr home_u"
    by (simp add: home_or_default_def os_xdg_def os_bare_def home_u_def)
  have b: "home_or_default os_bare (Some home_u) = Inr home_u"
    by (simp add: home_or_default_def)
  show ?thesis
    using a b default_search_paths_shape [OF a] default_search_paths_shape [OF b]
    by (simp add: os_getenv_def os_xdg_def os_bare_def home_u_def Path_def splitroot_def)
qed

text \<open>
  With \<open>XDG_CONFIG_HOME\<close> set to the empty string the first element is built from the
  home directory. Built from the variable it would be the relative path
  \<open>ado/config.yaml\<close>.
\<close>

theorem default_search_paths_xdg_empty:
  "os_getenv os_xdg_empty ''XDG_CONFIG_HOME'' = Some [] \<and>
   default_search_paths os_xdg_empty (Some home_u) =
     Inr [PosixPath ''/'' [''home'', ''u'', ''.config'', ''ado'', ''config.yaml''],
          PosixPath ''/'' [''home'', ''u'', ''.ado'', ''config.yaml'']] \<and>
   truediv (truediv (Path []) ''ado'') ''config.yaml'' = PosixPath [] [''ado'', ''config.yaml''] \<and>
   default_search_paths os_xdg_empty (Some home_u) \<noteq>
     Inr [truediv (truediv (Path []) ''ado'') ''config.yaml'',
          PosixPath ''/'' [''home'', ''u'', ''.ado'', ''config.yaml'']]"
  by (simp add: default_search_paths_given_home truthy_simps os_getenv_def os_xdg_empty_def
      os_bare_def home_u_def truediv_segment_simps Path_def)

text \<open>
  C3, as the code has it. \<open>default_search_paths\<close> calls \<open>os.getenv\<close>, so the result of
  \<open>resolve_config_path\<close> depends on the process. Two runs with the same arguments give
  the same result when they agree on the value of \<open>XDG_CONFIG_HOME\<close>, on the answers of
  the filesystem and, when no \<open>home\<close> is passed, on what \<open>Path.home()\<close> returns. No
  other variable of the environment matters.
\<close>

theorem resolve_same_xdg:
  assumes "os_getenv os1 ''XDG_CONFIG_HOME'' = os_getenv os2 ''XDG_CONFIG_HOME''"
    and "path_exists os1 = path_exists os2"
    and "home = None \<longrightarrow> path_home os1 = path_home os2"
  shows "resolve_config_path os1 explicit_path env_path home =
         resolve_config_path os2 explicit_path env_path home"
proof -
  from assms(3) have "home_or_default os1 home = home_or_default os2 home"
    by (cases home) (simp_all add: home_or_default_def)
  with assms(1) have "default_search_paths os1 home = default_search_paths os2 home"
    by (simp add: default_search_paths_def cong: sum.case_cong)
  with assms(2) show ?thesis
    by (simp add: resolve_config_path_def cong: sum.case_cong option.case_cong)
qed

theorem resolve_same_xdg_witness:
  "os_getenv os_other_env ''XDG_CONFIG_HOME'' = os_getenv os_bare ''XDG_CONFIG_HOME'' \<and>
   path_exists os_other_env = path_exists os_bare \<and>
   environ os_other_env ''ADO_LOG_LEVEL'' \<noteq> environ os_bare ''ADO_LOG_LEVEL'' \<and>
   resolve_config_path os_other_env None None None = resolve_config_path os_bare None None None"
proof -
  have a: "os_getenv os_other_env ''XDG_CONFIG_HOME'' = os_getenv os_bare ''XDG_CONFIG_HOME''"
    by (simp add: os_getenv_def os_other_env_def os_bare_def)
  have b: "path_exists os_other_env = path_exists os_bare"
    by (simp add: os_other_env_def)
  have c: "(None :: path option) = None \<longrightarrow> path_home os_other_env = path_home os_bare"
    by (simp add: os_other_env_def)
  have d: "environ os_other_env ''ADO_LOG_LEVEL'' \<noteq> environ os_bare ''ADO_LOG_LEVEL''"
    by (simp add: os_other_env_def os_bare_def)
  from a b d resolve_same_xdg [OF a b c, of None None] show ?thesis by simp
qed

text \<open>
  Two processes with the same filesystem and the same home directory, called with the
  same arguments: with \<open>XDG_CONFIG_HOME=/x\<close> the first candidate is
  \<open>/x/ado/config.yaml\<close>, without the variable it is \<open>/home/u/.config/ado/config.yaml\<close>.
\<close>

theorem resolve_reads_xdg:
  "path_exists os_xdg = path_exists os_bare \<and> path_home os_xdg = path_home os_bare \<and>
   resolve_config_path os_xdg None None (Some home_u) =
     Inr (None, [PosixPath ''/'' [''x'', ''ado'', ''config.yaml''],
                 PosixPath ''/'' [''home'', ''u'', ''.ado'', ''config.yaml'']]) \<and>
   resolve_config_path os_bare None None (Some home_u) =
     Inr (None, [PosixPath ''/'' [''home'', ''u'', ''.config'', ''ado'', ''config.yaml''],
                 PosixPath ''/'' [''home'', ''u'', ''.ado'', ''config.yaml'']]) \<and>
   resolve_config_path os_xdg None None (Some home_u) \<noteq>
     resolve_config_path os_bare None None (Some home_u)"
  by (simp add: resolve_config_path_def default_search_paths_given_home truthy_simps os_getenv_def
      os_xdg_def os_bare_def home_u_def Path_def splitroot_def)

section \<open>Rendering\<close>

text \<open>
  C9. For every format other than \<open>json\<close> and \<open>yaml\<close>, and every payload,
  \<open>format_output\<close> returns what the caller's \<open>render_text\<close> returns, unchanged.
\<close>

theorem format_output_text:
  "format \<noteq> ''json'' \<Longrightarrow> format \<noteq> ''yaml'' \<Longrightarrow>
   format_output K format payload render_text = render_text ()"
  by (simp add: format_output_def)

theorem format_output_text_witness:
  "''text'' \<noteq> ''json'' \<and> ''text'' \<noteq> ''yaml'' \<and>
   format_output no_text ''text'' (PObject ''PosixPath'') say_hello = Inr ''hello''"
  using format_output_text [of "''text''" no_text "PObject ''PosixPath''" say_hello]
  by (simp add: say_hello_def)



end
